theory Spec2Isabelle
  imports Complex_Main "HOL-Library.Word"
begin

unbundle bit_operations_syntax

section \<open>Projection matrices of the depth camera sensor\<close>

text \<open>
  The functions of \<^verbatim>\<open>DepthCameraSensorPrivate\<close> that build the OpenGL projection
  matrix work on \<^verbatim>\<open>double\<close> values. They are embedded over the reals: every
  operand is a finite number and each operation is the exact one, so rounding is not
  part of the model. A \<^verbatim>\<open>math::Matrix4d\<close> is built from its sixteen entries in
  row-major order, as the constructor of the matrix class takes them.
\<close>

datatype Matrix4d = Matrix4d
  real real real real
  real real real real
  real real real real
  real real real real

text \<open>Entry at a row and a column, both counted from 0 (the call operator of the matrix).\<close>

fun elem :: "Matrix4d \<Rightarrow> nat \<Rightarrow> nat \<Rightarrow> real" where
  "elem (Matrix4d v00 v01 v02 v03 v10 v11 v12 v13 v20 v21 v22 v23 v30 v31 v32 v33) i j =
     (if i = 0 then (if j = 0 then v00 else if j = 1 then v01 else if j = 2 then v02 else v03)
      else if i = 1 then (if j = 0 then v10 else if j = 1 then v11 else if j = 2 then v12 else v13)
      else if i = 2 then (if j = 0 then v20 else if j = 1 then v21 else if j = 2 then v22 else v23)
      else (if j = 0 then v30 else if j = 1 then v31 else if j = 2 then v32 else v33))"

text \<open>One entry of a product: row \<open>i\<close> of the first factor against column \<open>j\<close> of the second.\<close>

definition row_by_col :: "Matrix4d \<Rightarrow> Matrix4d \<Rightarrow> nat \<Rightarrow> nat \<Rightarrow> real" where
  "row_by_col a b i j =
     elem a i 0 * elem b 0 j + elem a i 1 * elem b 1 j +
     elem a i 2 * elem b 2 j + elem a i 3 * elem b 3 j"

text \<open>
  The multiplication operator of \<^verbatim>\<open>math::Matrix4d\<close>. The matrix class belongs to the
  math library the sensor links against; its operator is the row-by-column product.
\<close>

definition Matrix4d_times :: "Matrix4d \<Rightarrow> Matrix4d \<Rightarrow> Matrix4d" where
  "Matrix4d_times a b = Matrix4d
     (row_by_col a b 0 0) (row_by_col a b 0 1) (row_by_col a b 0 2) (row_by_col a b 0 3)
     (row_by_col a b 1 0) (row_by_col a b 1 1) (row_by_col a b 1 2) (row_by_col a b 1 3)
     (row_by_col a b 2 0) (row_by_col a b 2 1) (row_by_col a b 2 2) (row_by_col a b 2 3)
     (row_by_col a b 3 0) (row_by_col a b 3 1) (row_by_col a b 3 2) (row_by_col a b 3 3)"

definition BuildNDCMatrix :: "real \<Rightarrow> real \<Rightarrow> real \<Rightarrow> real \<Rightarrow> real \<Rightarrow> real \<Rightarrow> Matrix4d" where
  "BuildNDCMatrix v_left v_right v_bottom v_top v_near v_far =
     (let inverseWidth = 1 / (v_right - v_left);
          inverseHeight = 1 / (v_top - v_bottom);
          inverseDistance = 1 / (v_far - v_near)
      in Matrix4d
           (2 * inverseWidth) 0 0 (- (v_right + v_left) * inverseWidth)
           0 (2 * inverseHeight) 0 (- (v_top + v_bottom) * inverseHeight)
           0 0 (- 2 * inverseDistance) (- (v_far + v_near) * inverseDistance)
           0 0 0 1)"

definition BuildPerspectiveMatrix ::
  "real \<Rightarrow> real \<Rightarrow> real \<Rightarrow> real \<Rightarrow> real \<Rightarrow> real \<Rightarrow> real \<Rightarrow> Matrix4d" where
  "BuildPerspectiveMatrix intrinsicsFx intrinsicsFy intrinsicsCx intrinsicsCy intrinsicsS
       clipNear clipFar =
     Matrix4d
       intrinsicsFx intrinsicsS (- intrinsicsCx) 0
       0 intrinsicsFy (- intrinsicsCy) 0
       0 0 (clipNear + clipFar) (clipNear * clipFar)
       0 0 (- 1) 0"

definition BuildProjectionMatrix ::
  "real \<Rightarrow> real \<Rightarrow> real \<Rightarrow> real \<Rightarrow> real \<Rightarrow> real \<Rightarrow> real \<Rightarrow> real \<Rightarrow> real \<Rightarrow> Matrix4d" where
  "BuildProjectionMatrix imageWidth imageHeight intrinsicsFx intrinsicsFy
       intrinsicsCx intrinsicsCy intrinsicsS clipNear clipFar =
     Matrix4d_times
       (BuildNDCMatrix 0 imageWidth 0 imageHeight clipNear clipFar)
       (BuildPerspectiveMatrix intrinsicsFx intrinsicsFy
          intrinsicsCx (imageHeight - intrinsicsCy) intrinsicsS clipNear clipFar)"

section \<open>Conversion of a depth frame to a grayscale image\<close>

text \<open>
  A depth sample is a \<^verbatim>\<open>float\<close> and may be an infinity (no return) or a NaN, and the
  conversion divides by a value that can be zero, so the special values are part of the
  model. A floating-point value is a finite real, an infinity or NaN. Arithmetic between
  finite values is exact (rounding, overflow to infinity and the sign of zero are not
  modelled); the outcome of an operation on a special value or of a division by zero is
  the one of IEEE 754. A zero divisor counts as a positive zero: the only divisor of the
  conversion, \<^verbatim>\<open>maxDepth\<close>, starts as the literal \<^verbatim>\<open>0\<close> and is afterwards only
  replaced by values greater than itself.
\<close>

datatype float_val = Finite real | PosInf | NegInf | NaN

fun isinf :: "float_val \<Rightarrow> bool" where
  "isinf PosInf = True"
| "isinf NegInf = True"
| "isinf _ = False"

text \<open>\<open>float_gt a b\<close> is the comparison \<^verbatim>\<open>a > b\<close>; it is false when either side is NaN.\<close>

fun float_gt :: "float_val \<Rightarrow> float_val \<Rightarrow> bool" where
  "float_gt (Finite x) (Finite y) = (y < x)"
| "float_gt (Finite x) NegInf = True"
| "float_gt PosInf (Finite y) = True"
| "float_gt PosInf NegInf = True"
| "float_gt _ _ = False"

fun float_div :: "float_val \<Rightarrow> float_val \<Rightarrow> float_val" where
  "float_div (Finite x) (Finite y) =
     (if y \<noteq> 0 then Finite (x / y)
      else if x = 0 then NaN else if 0 < x then PosInf else NegInf)"
| "float_div (Finite x) PosInf = Finite 0"
| "float_div (Finite x) NegInf = Finite 0"
| "float_div PosInf (Finite y) = (if 0 \<le> y then PosInf else NegInf)"
| "float_div NegInf (Finite y) = (if 0 \<le> y then NegInf else PosInf)"
| "float_div _ _ = NaN"

fun float_times :: "float_val \<Rightarrow> float_val \<Rightarrow> float_val" where
  "float_times (Finite x) (Finite y) = Finite (x * y)"
| "float_times (Finite x) PosInf = (if x = 0 then NaN else if 0 < x then PosInf else NegInf)"
| "float_times (Finite x) NegInf = (if x = 0 then NaN else if 0 < x then NegInf else PosInf)"
| "float_times PosInf (Finite y) = (if y = 0 then NaN else if 0 < y then PosInf else NegInf)"
| "float_times NegInf (Finite y) = (if y = 0 then NaN else if 0 < y then NegInf else PosInf)"
| "float_times PosInf PosInf = PosInf"
| "float_times PosInf NegInf = NegInf"
| "float_times NegInf PosInf = NegInf"
| "float_times NegInf NegInf = PosInf"
| "float_times _ _ = NaN"

fun float_minus :: "float_val \<Rightarrow> float_val \<Rightarrow> float_val" where
  "float_minus (Finite x) (Finite y) = Finite (x - y)"
| "float_minus (Finite x) PosInf = NegInf"
| "float_minus (Finite x) NegInf = PosInf"
| "float_minus PosInf (Finite y) = PosInf"
| "float_minus PosInf NegInf = PosInf"
| "float_minus NegInf (Finite y) = NegInf"
| "float_minus NegInf PosInf = NegInf"
| "float_minus _ _ = NaN"

text \<open>Truncation toward zero, the rounding of a conversion from floating point to integer.\<close>

definition truncate_toward_zero :: "real \<Rightarrow> int" where
  "truncate_toward_zero r = (if 0 \<le> r then \<lfloor>r\<rfloor> else \<lceil>r\<rceil>)"

text \<open>
  \<^verbatim>\<open>static_cast<unsigned char>\<close> of a floating-point value. The conversion truncates
  and has a defined result only if the truncated value is one of 0..255; for any other
  value, an infinity or NaN the language leaves the behaviour undefined, which is the
  result \<open>None\<close>: a byte that has no defined value.
\<close>

fun to_uchar :: "float_val \<Rightarrow> 8 word option" where
  "to_uchar (Finite r) =
     (if - 1 < r \<and> r < 256 then Some (word_of_int (truncate_toward_zero r)) else None)"
| "to_uchar _ = None"

text \<open>
  Memory that holds floats is a function from the index to the value; memory that holds
  bytes is a function from the index to a byte, or to \<open>None\<close> where the byte has no
  defined value.
\<close>

type_synonym float_mem = "nat \<Rightarrow> float_val"
type_synonym byte_mem = "nat \<Rightarrow> 8 word option"

text \<open>Memory that holds the elements of a list from index 0 on, and \<open>d\<close> behind them.\<close>

definition mem_of_list :: "'a \<Rightarrow> 'a list \<Rightarrow> nat \<Rightarrow> 'a" where
  "mem_of_list d xs i = (if i < length xs then xs ! i else d)"

text \<open>
  Body of the first loop of \<^verbatim>\<open>ConvertDepthToImage\<close>: sample \<open>i\<close> replaces
  \<^verbatim>\<open>maxDepth\<close> when it is greater and not an infinity.
\<close>

definition max_depth_step :: "float_mem \<Rightarrow> nat \<Rightarrow> float_val \<Rightarrow> float_val" where
  "max_depth_step data i maxDepth =
     (if float_gt (data i) maxDepth \<and> \<not> isinf (data i) then data i else maxDepth)"

text \<open>
  Body of the second loop: the byte of sample \<open>j\<close> goes to the three bytes of pixel
  \<open>j\<close>. The indices \<^verbatim>\<open>j * 3\<close>, \<^verbatim>\<open>j * 3 + 1\<close> and \<^verbatim>\<open>j * 3 + 2\<close> are computed in
  \<^verbatim>\<open>unsigned int\<close>, so they wrap at \<open>2^32\<close>.
\<close>

definition write_pixel :: "float_mem \<Rightarrow> float_val \<Rightarrow> nat \<Rightarrow> byte_mem \<Rightarrow> byte_mem" where
  "write_pixel data factor j imageBuffer =
     (let d = to_uchar (float_minus (Finite 255) (float_times (data j) factor));
          k = (of_nat j :: 32 word) * 3
      in imageBuffer(unat k := d, unat (k + 1) := d, unat (k + 2) := d))"

text \<open>
  The two scans of \<^verbatim>\<open>ConvertDepthToImage\<close> over the indices \<open>0..<n\<close>: the first starts
  from \<^verbatim>\<open>maxDepth = 0\<close>, the second from the image buffer it is given.
\<close>

definition scan_max_depth :: "float_mem \<Rightarrow> nat \<Rightarrow> float_val" where
  "scan_max_depth data n = fold (max_depth_step data) [0..<n] (Finite 0)"

definition fill_image :: "float_mem \<Rightarrow> float_val \<Rightarrow> nat \<Rightarrow> byte_mem \<Rightarrow> byte_mem" where
  "fill_image data factor n imageBuffer = fold (write_pixel data factor) [0..<n] imageBuffer"

text \<open>
  \<^verbatim>\<open>ConvertDepthToImage\<close>: both scans run over the indices below
  \<^verbatim>\<open>_height * _width\<close>, a product of \<^verbatim>\<open>unsigned int\<close>. The result is the image
  buffer after the call and the returned flag.
\<close>

definition ConvertDepthToImage ::
  "float_mem \<Rightarrow> byte_mem \<Rightarrow> 32 word \<Rightarrow> 32 word \<Rightarrow> byte_mem \<times> bool" where
  "ConvertDepthToImage data imageBuffer width height =
     (let n = unat (height * width);
          maxDepth = scan_max_depth data n;
          factor = float_div (Finite 255) maxDepth
      in (fill_image data factor n imageBuffer, True))"


section \<open>The sensor and its collaborators\<close>

text \<open>
  The sensor works with collaborators that are not part of it: the configuration (SDF),
  the rendering camera, the transport node with its publishers, the event that carries
  the direct callbacks, the file system and the helper that fills point clouds. Each
  call to a collaborator that can be observed from outside is recorded, in order, in a
  log that the state of the sensor carries; what a collaborator answers is taken from an
  environment.
\<close>

subsection \<open>Configuration\<close>

text \<open>The enumerators of \<^verbatim>\<open>sdf::SensorType\<close> and \<^verbatim>\<open>sdf::NoiseType\<close> that matter here.\<close>

datatype SensorType = NONE_SENSOR | CAMERA | DEPTH_CAMERA | RGBD_CAMERA | THERMAL_CAMERA | LIDAR

datatype NoiseType = NONE | GAUSSIAN | GAUSSIAN_QUANTIZED

text \<open>
  What the sensor reads from an \<^verbatim>\<open>sdf::Camera\<close> and an \<^verbatim>\<open>sdf::Sensor\<close>. Angles and
  distances are finite numbers.
\<close>

record sdf_Camera =
  ImageWidth :: "32 word"
  ImageHeight :: "32 word"
  NearClip :: real
  FarClip :: real
  VisibilityMask :: "32 word"
  ImageNoise :: NoiseType
  AntiAliasingValue :: "32 word"
  HorizontalFov :: real
  HasLensIntrinsics :: bool
  LensIntrinsicsFx :: real
  LensIntrinsicsFy :: real
  LensIntrinsicsCx :: real
  LensIntrinsicsCy :: real
  LensIntrinsicsSkew :: real
  SaveFrames :: bool
  SaveFramesPath :: string

record sdf_Sensor =
  Type :: SensorType
  TypeStr :: string
  Name :: string
  Topic :: string
  CameraSensor :: "sdf_Camera option"

subsection \<open>Rendering camera, buffers and messages\<close>

text \<open>
  The settings the sensor makes on the depth camera of the renderer. A setting that the
  sensor has not made yet is \<open>None\<close>.
\<close>

record DepthCamera =
  cam_ImageWidth :: "32 word"
  cam_ImageHeight :: "32 word"
  cam_NearClipPlane :: real
  cam_FarClipPlane :: real
  cam_VisibilityMask :: "32 word"
  cam_AntiAliasing :: "32 word option"
  cam_AspectRatio :: "float_val option"
  cam_HFOV :: "real option"
  cam_ProjectionMatrix :: "Matrix4d option"
  cam_DepthTexture :: bool
  cam_InScene :: bool

text \<open>
  An array of floats made by \<^verbatim>\<open>new float[capacity]\<close>; a null pointer is \<open>None\<close> where
  the sensor keeps such an array.
\<close>

record float_buffer =
  capacity :: nat
  cells :: float_mem

text \<open>A \<^verbatim>\<open>rendering::Image\<close>: its size and its bytes.\<close>

record Image =
  Width :: "32 word"
  Height :: "32 word"
  Data :: byte_mem

datatype PixelFormatType = R_FLOAT32

text \<open>
  The depth image message. \<^verbatim>\<open>set_data\<close> is given the depth buffer and a number of
  bytes; the payload of the model is the floats in that many bytes, or \<open>None\<close> when the
  pointer given is null.
\<close>

record Image_msg =
  msg_width :: "32 word"
  msg_height :: "32 word"
  msg_step :: "32 word"
  msg_pixel_format_type :: PixelFormatType
  msg_stamp :: nat
  msg_frame_id :: string
  msg_data :: "float_val list option"
  msg_seq :: nat

record PointCloudPacked =
  pc_frame_id :: string
  pc_stamp :: nat
  pc_is_dense :: bool
  pc_width :: "32 word"
  pc_height :: "32 word"
  pc_point_step :: "32 word"
  pc_row_step :: "32 word"
  pc_data :: "8 word option list"
  pc_seq :: nat

text \<open>A transport publisher: whether it was created, and whether it has subscribers.\<close>

record Publisher =
  pub_valid :: bool
  pub_HasConnections :: bool

text \<open>A direct callback either returns or throws when it is given a message.\<close>

datatype callback_result = Returns | Throws

type_synonym image_callback = "Image_msg \<Rightarrow> callback_result"

datatype SensorNoiseType = NO_NOISE | CAMERA_NOISE

datatype NoiseModel = ImageGaussianNoiseModel

datatype buffer_id = DepthBufferId | PointCloudBufferId | XyzBufferId | ImgDepthBufferId | ImageDataId

text \<open>What the sensor does that can be observed from outside.\<close>

datatype event =
    LogError string
  | LogWarning string
  | LogDebug string
  | Alloc buffer_id nat
  | Overrun buffer_id
  | SavePNG string string "64 word"
  | RenderPass
  | PublishInfo nat
  | PublishImage Image_msg
  | CallbackCalled nat
  | PublishPointCloud PointCloudPacked

subsection \<open>State of the sensor\<close>

text \<open>
  The fields of \<^verbatim>\<open>DepthCameraSensorPrivate\<close>, the state of the base classes the sensor
  reads (topic, frame id, subscribers of the camera info, sequence counters) and the log.
\<close>

record sensor =
  initialized :: bool
  depthCamera :: "DepthCamera option"
  depthBuffer :: "float_buffer option"
  pointCloudBuffer :: "float_buffer option"
  xyzBuffer :: "float_buffer option"
  near :: real
  image :: Image
  noises :: "SensorNoiseType \<Rightarrow> NoiseModel option"
  imageEvent :: "image_callback list"
  depthConnection :: bool
  pointCloudConnection :: bool
  sceneChangeConnection :: bool
  saveImage :: bool
  saveImagePath :: string
  saveImagePrefix :: string
  saveImageCounter :: "64 word"
  sdfSensor :: sdf_Sensor
  pointMsg :: PointCloudPacked
  pub :: Publisher
  pointPub :: Publisher
  sensorName :: string
  sensorTopic :: string
  OpticalFrameId :: string
  HasInfoConnections :: bool
  sequences :: "string \<Rightarrow> nat"
  log :: "event list"

text \<open>
  The environment: the file system, the contents of memory that was just allocated, the
  helper \<^verbatim>\<open>PointCloudUtil\<close>, the message library and the renderer.
\<close>

record env =
  isDirectory :: "string \<Rightarrow> bool"
  createDirectories :: "string \<Rightarrow> bool"
  fresh_floats :: float_mem
  fresh_bytes :: byte_mem
  XYZFromPointCloud :: "float_mem \<Rightarrow> float_mem \<Rightarrow> 32 word \<Rightarrow> 32 word \<Rightarrow> float_mem"
  FillMsg :: "PointCloudPacked \<Rightarrow> float_mem \<Rightarrow> byte_mem \<Rightarrow> PointCloudPacked"
  InitPointCloudPacked :: "PointCloudPacked \<Rightarrow> string \<Rightarrow> PointCloudPacked"
  rendererProjection :: "DepthCamera \<Rightarrow> Matrix4d"
  projectionToCameraIntrinsic :: "Matrix4d \<Rightarrow> 32 word \<Rightarrow> 32 word \<Rightarrow> nat \<Rightarrow> nat \<Rightarrow> real"

definition add_log :: "event \<Rightarrow> sensor \<Rightarrow> sensor" where
  "add_log e s = s\<lparr>log := log s @ [e]\<rparr>"

subsection \<open>Capture of frames\<close>

text \<open>
  \<^verbatim>\<open>memcpy\<close> of \<open>nbytes\<close> bytes into an array of floats: the floats that these
  bytes hold are replaced (every byte count here is a multiple of 4).
\<close>

definition memcpy_floats :: "float_buffer \<Rightarrow> float_mem \<Rightarrow> nat \<Rightarrow> float_buffer" where
  "memcpy_floats dst src nbytes =
     dst\<lparr>cells := (\<lambda>i. if i < nbytes div 4 then src i else cells dst i)\<rparr>"

text \<open>
  \<^verbatim>\<open>SaveImage\<close>. The counts are \<^verbatim>\<open>unsigned int\<close>. The image written is the
  grayscale conversion of the frame, in a buffer allocated for this call; the log keeps
  the directory, the prefix and the counter that make the file name.
\<close>

definition SaveImage ::
  "env \<Rightarrow> sensor \<Rightarrow> float_mem \<Rightarrow> 32 word \<Rightarrow> 32 word \<Rightarrow> bool \<times> sensor" where
  "SaveImage e s data width height =
     (if \<not> isDirectory e (saveImagePath s) \<and> \<not> createDirectories e (saveImagePath s)
      then (False, s)
      else if width = 0 \<or> height = 0 then (False, s)
      else
        (let depthSamples = width * height;
             depthBufferSize = depthSamples * 3;
             s1 = add_log (Alloc ImgDepthBufferId (unat depthBufferSize)) s;
             imgDepthBuffer = fst (ConvertDepthToImage data (fresh_bytes e) width height);
             s2 = add_log (SavePNG (saveImagePath s1) (saveImagePrefix s1) (saveImageCounter s1)) s1
         in (True, s2\<lparr>saveImageCounter := saveImageCounter s1 + 1\<rparr>)))"

text \<open>
  \<^verbatim>\<open>OnNewDepthFrame\<close>. \<^verbatim>\<open>depthSamples\<close> is a product of \<^verbatim>\<open>unsigned int\<close>;
  \<^verbatim>\<open>depthBufferSize\<close> is the product with \<^verbatim>\<open>sizeof(float)\<close>, computed in
  \<^verbatim>\<open>size_t\<close> (64 bits) and stored in an \<^verbatim>\<open>unsigned int\<close>. The buffer is allocated
  only while the pointer is null. A copy longer than the allocation is logged as an
  overrun.
\<close>

definition OnNewDepthFrame ::
  "env \<Rightarrow> sensor \<Rightarrow> float_mem \<Rightarrow> 32 word \<Rightarrow> 32 word \<Rightarrow> 32 word \<Rightarrow> string \<Rightarrow> sensor" where
  "OnNewDepthFrame e s scan width height channels format =
     (let depthSamples = width * height;
          depthBufferSize = (ucast ((ucast depthSamples :: 64 word) * 4) :: 32 word);
          s1 = (case depthBuffer s of
                  None \<Rightarrow> add_log (Alloc DepthBufferId (unat depthSamples))
                    (s\<lparr>depthBuffer :=
                        Some \<lparr>capacity = unat depthSamples, cells = fresh_floats e\<rparr>\<rparr>)
                | Some b \<Rightarrow> s);
          s2 = (case depthBuffer s1 of
                  None \<Rightarrow> s1
                | Some b \<Rightarrow>
                    (if capacity b < unat depthBufferSize div 4
                     then add_log (Overrun DepthBufferId) else id)
                      (s1\<lparr>depthBuffer := Some (memcpy_floats b scan (unat depthBufferSize))\<rparr>))
      in if saveImage s2 then snd (SaveImage e s2 scan width height) else s2)"

text \<open>\<^verbatim>\<open>OnNewRgbPointCloud\<close>, with the number of channels in both products.\<close>

definition OnNewRgbPointCloud ::
  "env \<Rightarrow> sensor \<Rightarrow> float_mem \<Rightarrow> 32 word \<Rightarrow> 32 word \<Rightarrow> 32 word \<Rightarrow> string \<Rightarrow> sensor" where
  "OnNewRgbPointCloud e s scan width height channels format =
     (let pointCloudSamples = width * height;
          pointCloudBufferSize =
            (ucast ((ucast (pointCloudSamples * channels) :: 64 word) * 4) :: 32 word);
          s1 = (case pointCloudBuffer s of
                  None \<Rightarrow> add_log (Alloc PointCloudBufferId (unat (pointCloudSamples * channels)))
                    (s\<lparr>pointCloudBuffer :=
                        Some \<lparr>capacity = unat (pointCloudSamples * channels),
                              cells = fresh_floats e\<rparr>\<rparr>)
                | Some b \<Rightarrow> s)
      in (case pointCloudBuffer s1 of
            None \<Rightarrow> s1
          | Some b \<Rightarrow>
              (if capacity b < unat pointCloudBufferSize div 4
               then add_log (Overrun PointCloudBufferId) else id)
                (s1\<lparr>pointCloudBuffer :=
                    Some (memcpy_floats b scan (unat pointCloudBufferSize))\<rparr>)))"


subsection \<open>Creation of the camera and loading\<close>

text \<open>
  \<^verbatim>\<open>CreateCamera\<close>, for a sensor that has a scene (\<^verbatim>\<open>Load\<close> calls it only then). The
  camera is created and stored before the field of view is checked. The horizontal field
  of view is compared as a number of radians. The projection matrix is built over the
  reals, from the size of the image as numbers. When the configuration has no lens
  intrinsics, they are read back from the projection of the renderer and stored in the
  configuration (which then has intrinsics).
\<close>

definition CreateCamera :: "env \<Rightarrow> sensor \<Rightarrow> bool \<times> sensor" where
  "CreateCamera e s =
     (case CameraSensor (sdfSensor s) of
        None \<Rightarrow> (False, add_log (LogError ''Unable to access camera SDF element'') s)
      | Some cameraSdf \<Rightarrow>
          (let width = ImageWidth cameraSdf;
               height = ImageHeight cameraSdf;
               cam0 = \<lparr>cam_ImageWidth = width, cam_ImageHeight = height,
                       cam_NearClipPlane = NearClip cameraSdf,
                       cam_FarClipPlane = FarClip cameraSdf,
                       cam_VisibilityMask = VisibilityMask cameraSdf,
                       cam_AntiAliasing = None, cam_AspectRatio = None, cam_HFOV = None,
                       cam_ProjectionMatrix = None, cam_DepthTexture = False,
                       cam_InScene = False\<rparr>;
               s1 = s\<lparr>depthCamera := Some cam0\<rparr>;
               s2 = (if ImageNoise cameraSdf = GAUSSIAN
                     then s1\<lparr>noises := (noises s1)(CAMERA_NOISE := Some ImageGaussianNoiseModel)\<rparr>
                     else if ImageNoise cameraSdf \<noteq> NONE
                     then add_log (LogWarning
                       ''The depth camera sensor only supports Gaussian noise.'') s1
                     else s1);
               s3 = s2\<lparr>near := NearClip cameraSdf\<rparr>;
               cam1 = cam0\<lparr>cam_AntiAliasing := Some (AntiAliasingValue cameraSdf)\<rparr>;
               angle = HorizontalFov cameraSdf
           in if angle < 0.01 \<or> angle > pi * 2
              then (False, add_log (LogError ''Invalid horizontal field of view'')
                             (s3\<lparr>depthCamera := Some cam1\<rparr>))
              else
                (let cam2 = cam1\<lparr>cam_AspectRatio :=
                                 Some (float_div (Finite (real (unat width)))
                                                 (Finite (real (unat height)))),
                               cam_HFOV := Some angle\<rparr>;
                     intrinsicMatrix = projectionToCameraIntrinsic e (rendererProjection e cam2)
                                         (cam_ImageWidth cam2) (cam_ImageHeight cam2);
                     cameraSdf1 = (if \<not> HasLensIntrinsics cameraSdf
                                   then cameraSdf\<lparr>HasLensIntrinsics := True,
                                          LensIntrinsicsFx := intrinsicMatrix 0 0,
                                          LensIntrinsicsFy := intrinsicMatrix 1 1,
                                          LensIntrinsicsCx := intrinsicMatrix 0 2,
                                          LensIntrinsicsCy := intrinsicMatrix 1 2\<rparr>
                                   else cameraSdf);
                     cam3 = (if \<not> HasLensIntrinsics cameraSdf then cam2
                             else cam2\<lparr>cam_ProjectionMatrix := Some
                                    (BuildProjectionMatrix
                                       (real (unat (cam_ImageWidth cam2)))
                                       (real (unat (cam_ImageHeight cam2)))
                                       (LensIntrinsicsFx cameraSdf) (LensIntrinsicsFy cameraSdf)
                                       (LensIntrinsicsCx cameraSdf) (LensIntrinsicsCy cameraSdf)
                                       (LensIntrinsicsSkew cameraSdf)
                                       (cam_NearClipPlane cam2) (cam_FarClipPlane cam2))\<rparr>);
                     cam4 = cam3\<lparr>cam_DepthTexture := True, cam_InScene := True\<rparr>;
                     s4 = s3\<lparr>depthCamera := Some cam4,
                             sdfSensor := (sdfSensor s3)\<lparr>CameraSensor := Some cameraSdf1\<rparr>\<rparr>;
                     s5 = (if SaveFrames cameraSdf
                           then s4\<lparr>saveImagePath := SaveFramesPath cameraSdf,
                                   saveImagePrefix := sensorName s4 @ ''_'',
                                   saveImage := True\<rparr>
                           else s4);
                     s6 = s5\<lparr>depthConnection := True, pointCloudConnection := True\<rparr>;
                     m = InitPointCloudPacked e (pointMsg s6) (OpticalFrameId s6)
                 in (True,
                     s6\<lparr>pointMsg := m\<lparr>pc_width := cam_ImageWidth cam4,
                                         pc_height := cam_ImageHeight cam4,
                                         pc_row_step := pc_point_step m * cam_ImageWidth cam4\<rparr>\<rparr>))))"

text \<open>
  What \<^verbatim>\<open>Load\<close> gets from outside: whether \<^verbatim>\<open>Load\<close> of the base class \<^verbatim>\<open>Sensor\<close>
  succeeds, whether the node creates each publisher, whether the camera info is
  advertised, and whether the sensor has a scene.
\<close>

record load_env =
  Sensor_Load :: bool
  Advertise_Image :: bool
  AdvertiseInfo :: bool
  Advertise_PointCloudPacked :: bool
  has_Scene :: bool

text \<open>
  \<^verbatim>\<open>Load\<close> from an \<^verbatim>\<open>sdf::Sensor\<close>. \<^verbatim>\<open>Load\<close> of the base class gives the sensor the
  name and the topic of the configuration. The check of the type of the sensor logs an
  error and goes on; the result of \<^verbatim>\<open>CreateCamera\<close> is not looked at.
\<close>

definition Load :: "env \<Rightarrow> load_env \<Rightarrow> sdf_Sensor \<Rightarrow> sensor \<Rightarrow> bool \<times> sensor" where
  "Load e le sdf s =
     (if \<not> Sensor_Load le then (False, s)
      else
        (let s0 = s\<lparr>sensorName := Name sdf, sensorTopic := Topic sdf\<rparr>;
             s1 = (if Type sdf \<noteq> DEPTH_CAMERA
                   then add_log (LogError
                     (''Attempting to a load a Depth Camera sensor, but received a '' @ TypeStr sdf)) s0
                   else s0)
         in (case CameraSensor sdf of
               None \<Rightarrow> (False, add_log (LogError
                 ''Attempting to a load a Depth Camera sensor, but received a null sensor.'') s1)
             | Some cameraSdf \<Rightarrow>
                 (let s2 = s1\<lparr>sdfSensor := sdf\<rparr>;
                      s3 = (if sensorTopic s2 = [] then s2\<lparr>sensorTopic := ''/camera/depth''\<rparr>
                            else s2);
                      s4 = s3\<lparr>pub := \<lparr>pub_valid = Advertise_Image le,
                                        pub_HasConnections = False\<rparr>\<rparr>
                  in if \<not> pub_valid (pub s4)
                     then (False, add_log (LogError
                       (''Unable to create publisher on topic['' @ sensorTopic s4 @ ''].'')) s4)
                     else
                       (let s5 = add_log (LogDebug
                              (''Depth images for ['' @ sensorName s4 @ ''] advertised on [''
                                @ sensorTopic s4 @ '']'')) s4
                        in if \<not> AdvertiseInfo le then (False, s5)
                           else
                             (let s6 = s5\<lparr>pointPub :=
                                     \<lparr>pub_valid = Advertise_PointCloudPacked le,
                                      pub_HasConnections = False\<rparr>\<rparr>
                              in if \<not> pub_valid (pointPub s6)
                                 then (False, add_log (LogError
                                   (''Unable to create publisher on topic['' @ sensorTopic s6
                                      @ ''/points].'')) s6)
                                 else
                                   (let s7 = add_log (LogDebug
                                          (''Points for ['' @ sensorName s6 @ ''] advertised on [''
                                            @ sensorTopic s6 @ ''/points]'')) s6;
                                        s8 = (if has_Scene le then snd (CreateCamera e s7) else s7)
                                    in (True, s8\<lparr>sceneChangeConnection := True,
                                                  initialized := True\<rparr>))))))))"

subsection \<open>The tick\<close>

definition HasDepthConnections :: "sensor \<Rightarrow> bool" where
  "HasDepthConnections s =
     ((pub_valid (pub s) \<and> pub_HasConnections (pub s)) \<or> 0 < length (imageEvent s))"

definition HasPointConnections :: "sensor \<Rightarrow> bool" where
  "HasPointConnections s = (pub_valid (pointPub s) \<and> pub_HasConnections (pointPub s))"

definition HasConnections :: "sensor \<Rightarrow> bool" where
  "HasConnections s =
     (HasDepthConnections s \<or> HasPointConnections s \<or> HasInfoConnections s)"

text \<open>
  Modelled from the spec: \<^verbatim>\<open>Render\<close> of the base class \<^verbatim>\<open>RenderingSensor\<close> is missing
  from the sources. It triggers a render pass, synchronous for the caller, during which
  the renderer may invoke the capture callbacks. The frames that a pass delivers are an
  argument; a frame reaches a callback that \<^verbatim>\<open>CreateCamera\<close> has connected.
\<close>

datatype capture =
    NewDepthFrame float_mem "32 word" "32 word" "32 word" string
  | NewRgbPointCloud float_mem "32 word" "32 word" "32 word" string

fun deliver :: "env \<Rightarrow> capture \<Rightarrow> sensor \<Rightarrow> sensor" where
  "deliver e (NewDepthFrame scan width height channels format) s =
     (if depthConnection s then OnNewDepthFrame e s scan width height channels format else s)"
| "deliver e (NewRgbPointCloud scan width height channels format) s =
     (if pointCloudConnection s then OnNewRgbPointCloud e s scan width height channels format
      else s)"

definition Render :: "env \<Rightarrow> capture list \<Rightarrow> sensor \<Rightarrow> sensor" where
  "Render e captures s = fold (deliver e) captures (add_log RenderPass s)"

text \<open>
  Modelled from the spec: \<^verbatim>\<open>AddSequence\<close> of the base class \<^verbatim>\<open>Sensor\<close> is missing
  from the sources. It gives the message the sequence number kept under a key and
  advances that number.
\<close>

definition AddSequence :: "string \<Rightarrow> sensor \<Rightarrow> nat \<times> sensor" where
  "AddSequence key s =
     (sequences s key, s\<lparr>sequences := (sequences s)(key := sequences s key + 1)\<rparr>)"

text \<open>
  The payload that \<^verbatim>\<open>set_data\<close> takes from a pointer and a number of bytes.
\<close>

definition payload :: "float_buffer option \<Rightarrow> nat \<Rightarrow> float_val list option" where
  "payload p nbytes =
     (case p of None \<Rightarrow> None | Some b \<Rightarrow> Some (map (cells b) [0..<nbytes div 4]))"

text \<open>
  The depth image message of a tick (lines 701 to 724 of the source): the size of the
  camera, a row of \<open>width * 4\<close> bytes, the time of the tick, the frame id, the depth
  buffer of \<open>4 * width * height\<close> bytes (a product of \<^verbatim>\<open>unsigned int\<close>) and the next
  sequence number.
\<close>

definition depth_image_msg :: "nat \<Rightarrow> DepthCamera \<Rightarrow> sensor \<Rightarrow> Image_msg \<times> sensor" where
  "depth_image_msg now cam s =
     (let width = cam_ImageWidth cam;
          height = cam_ImageHeight cam;
          (seq, s1) = AddSequence ''default'' s
      in (\<lparr>msg_width = width, msg_height = height, msg_step = width * 4,
           msg_pixel_format_type = R_FLOAT32, msg_stamp = now,
           msg_frame_id = OpticalFrameId s,
           msg_data = payload (depthBuffer s) (unat (4 * width * height)),
           msg_seq = seq\<rparr>, s1))"

text \<open>
  The call operator of the event: the callbacks are called in the order of their
  registration, and an exception that a callback throws leaves the loop. The result is
  the calls made and how the loop ended.
\<close>

fun trigger :: "image_callback list \<Rightarrow> Image_msg \<Rightarrow> nat \<Rightarrow> event list \<times> callback_result" where
  "trigger [] msg i = ([], Returns)"
| "trigger (cb # cbs) msg i =
     (case cb msg of
        Throws \<Rightarrow> ([CallbackCalled i], Throws)
      | Returns \<Rightarrow> (CallbackCalled i # fst (trigger cbs msg (Suc i)), snd (trigger cbs msg (Suc i))))"

text \<open>
  The fan-out to the direct callbacks (lines 728 to 739): the \<^verbatim>\<open>try\<close> block around the
  event and the handler \<^verbatim>\<open>catch(...)\<close>, which logs an error.
\<close>

definition trigger_callbacks :: "Image_msg \<Rightarrow> sensor \<Rightarrow> sensor" where
  "trigger_callbacks msg s =
     (if 0 < length (imageEvent s)
      then (case snd (trigger (imageEvent s) msg 0) of
              Returns \<Rightarrow> s\<lparr>log := log s @ fst (trigger (imageEvent s) msg 0)\<rparr>
            | Throws \<Rightarrow> s\<lparr>log := log s @ fst (trigger (imageEvent s) msg 0) @
                  [LogError ''Exception thrown in an image callback.'']\<rparr>)
      else s)"

text \<open>How a call ends: it returns a value, or it reads through a null pointer.\<close>

datatype 'a outcome = Returned 'a | NullRead

text \<open>
  The point cloud of a tick (lines 741 to 776), statement by statement. The counts are
  \<^verbatim>\<open>unsigned int\<close>. First the time stamp and the flag of the message.
\<close>

definition stamp_point_msg :: "nat \<Rightarrow> sensor \<Rightarrow> sensor" where
  "stamp_point_msg now s = s\<lparr>pointMsg := (pointMsg s)\<lparr>pc_stamp := now, pc_is_dense := True\<rparr>\<rparr>"

text \<open>The xyz buffer is allocated while its pointer is null.\<close>

definition ensure_xyzBuffer :: "env \<Rightarrow> 32 word \<Rightarrow> 32 word \<Rightarrow> sensor \<Rightarrow> sensor" where
  "ensure_xyzBuffer e width height s =
     (case xyzBuffer s of
        None \<Rightarrow> add_log (Alloc XyzBufferId (unat (width * height * 3)))
          (s\<lparr>xyzBuffer := Some \<lparr>capacity = unat (width * height * 3), cells = fresh_floats e\<rparr>\<rparr>)
      | Some b \<Rightarrow> s)"

text \<open>The image is made anew when its size is not the size of the camera.\<close>

definition ensure_image :: "env \<Rightarrow> 32 word \<Rightarrow> 32 word \<Rightarrow> sensor \<Rightarrow> sensor" where
  "ensure_image e width height s =
     (if Width (image s) \<noteq> width \<or> Height (image s) \<noteq> height
      then add_log (Alloc ImageDataId (unat (width * height * 3)))
        (s\<lparr>image := \<lparr>Width = width, Height = height, Data = fresh_bytes e\<rparr>\<rparr>)
      else s)"

text \<open>\<^verbatim>\<open>XYZFromPointCloud\<close> writes the xyz buffer from the point-cloud buffer.\<close>

definition extract_xyz :: "env \<Rightarrow> float_buffer \<Rightarrow> 32 word \<Rightarrow> 32 word \<Rightarrow> sensor \<Rightarrow> sensor" where
  "extract_xyz e cloud width height s =
     s\<lparr>xyzBuffer :=
         map_option (\<lambda>b. b\<lparr>cells := XYZFromPointCloud e (cells b) (cells cloud) width height\<rparr>)
           (xyzBuffer s)\<rparr>"

text \<open>\<^verbatim>\<open>ConvertDepthToImage\<close> writes the bytes of the image from the depth data.\<close>

definition depth_to_image :: "float_mem \<Rightarrow> 32 word \<Rightarrow> 32 word \<Rightarrow> sensor \<Rightarrow> sensor" where
  "depth_to_image data width height s =
     s\<lparr>image := (image s)\<lparr>Data :=
         fst (ConvertDepthToImage data (Data (image s)) width height)\<rparr>\<rparr>"

text \<open>
  \<^verbatim>\<open>FillMsg\<close> fills the message from the xyz buffer and the image, and the message takes
  the next sequence number of its key.
\<close>

definition fill_point_msg :: "env \<Rightarrow> sensor \<Rightarrow> sensor" where
  "fill_point_msg e s =
     (let xyz = (case xyzBuffer s of None \<Rightarrow> mem_of_list NaN [] | Some b \<Rightarrow> cells b);
          m = FillMsg e (pointMsg s) xyz (Data (image s))
      in (snd (AddSequence ''pointMsg'' s))
           \<lparr>pointMsg := m\<lparr>pc_seq := fst (AddSequence ''pointMsg'' s)\<rparr>\<rparr>)"

definition publish_points :: "sensor \<Rightarrow> sensor" where
  "publish_points s = add_log (PublishPointCloud (pointMsg s)) s"

text \<open>
  The whole step, under its condition: a subscriber of the point cloud and a point-cloud
  buffer that is not null. \<^verbatim>\<open>ConvertDepthToImage\<close> reads the depth buffer; with a null
  depth buffer and at least one sample to read the call ends there.
\<close>

definition publish_point_cloud ::
  "env \<Rightarrow> nat \<Rightarrow> DepthCamera \<Rightarrow> sensor \<Rightarrow> bool outcome \<times> sensor" where
  "publish_point_cloud e now cam s =
     (if \<not> HasPointConnections s then (Returned True, s)
      else
        (case pointCloudBuffer s of
           None \<Rightarrow> (Returned True, s)
         | Some cloud \<Rightarrow>
            (let width = cam_ImageWidth cam;
                 height = cam_ImageHeight cam;
                 s4 = extract_xyz e cloud width height
                        (ensure_image e width height
                          (ensure_xyzBuffer e width height (stamp_point_msg now s)))
             in (case depthBuffer s4 of
                   None \<Rightarrow>
                     if unat (height * width) \<noteq> 0 then (NullRead, s4)
                     else (Returned True,
                           publish_points (fill_point_msg e
                             (depth_to_image (mem_of_list NaN []) width height s4)))
                 | Some depth \<Rightarrow>
                     (Returned True,
                      publish_points (fill_point_msg e
                        (depth_to_image (cells depth) width height s4)))))))"

text \<open>
  \<^verbatim>\<open>Update\<close>. \<^verbatim>\<open>PublishInfo\<close> of the base class \<^verbatim>\<open>CameraSensor\<close> is recorded in
  the log with the time of the tick. The frames the render pass delivers are the argument
  \<open>captures\<close>.
\<close>

definition Update :: "env \<Rightarrow> capture list \<Rightarrow> nat \<Rightarrow> sensor \<Rightarrow> bool outcome \<times> sensor" where
  "Update e captures now s =
     (if \<not> initialized s
      then (Returned False, add_log (LogError ''Not initialized, update ignored.'') s)
      else
        (case depthCamera s of
           None \<Rightarrow> (Returned False, add_log (LogError ''Camera doesn't exist.'') s)
         | Some cam \<Rightarrow>
             (let s1 = (if HasInfoConnections s then add_log (PublishInfo now) s else s)
              in if \<not> HasDepthConnections s1 \<and> \<not> HasPointConnections s1
                 then (Returned False, s1)
                 else
                   (let s2 = Render e captures s1;
                        (msg, s3) = depth_image_msg now cam s2;
                        s4 = add_log (PublishImage msg) s3;
                        s5 = trigger_callbacks msg s4
                    in publish_point_cloud e now cam s5))))"

text \<open>The point clouds and the depth images that a log shows as published.\<close>

definition published_point_clouds :: "event list \<Rightarrow> PointCloudPacked list" where
  "published_point_clouds evs =
     concat (map (\<lambda>ev. case ev of PublishPointCloud m \<Rightarrow> [m] | _ \<Rightarrow> []) evs)"

definition published_images :: "event list \<Rightarrow> Image_msg list" where
  "published_images evs =
     concat (map (\<lambda>ev. case ev of PublishImage m \<Rightarrow> [m] | _ \<Rightarrow> []) evs)"

definition render_passes :: "event list \<Rightarrow> nat" where
  "render_passes evs = length (filter (\<lambda>ev. ev = RenderPass) evs)"


subsection \<open>A new sensor and an environment for the examples\<close>

text \<open>
  The sensor as its constructor leaves it: the defaults of the members of
  \<^verbatim>\<open>DepthCameraSensorPrivate\<close>, no subscriber and an empty log.
\<close>

definition DepthCameraSensor_new :: sensor where
  "DepthCameraSensor_new =
     \<lparr>initialized = False,
      depthCamera = None,
      depthBuffer = None,
      pointCloudBuffer = None,
      xyzBuffer = None,
      near = 0,
      image = \<lparr>Width = 0, Height = 0, Data = mem_of_list None []\<rparr>,
      noises = (\<lambda>t. None),
      imageEvent = [],
      depthConnection = False,
      pointCloudConnection = False,
      sceneChangeConnection = False,
      saveImage = False,
      saveImagePath = ''./'',
      saveImagePrefix = ''./'',
      saveImageCounter = 0,
      sdfSensor = \<lparr>Type = NONE_SENSOR, TypeStr = ''none'', Name = [], Topic = [],
                   CameraSensor = None\<rparr>,
      pointMsg = \<lparr>pc_frame_id = [], pc_stamp = 0, pc_is_dense = False, pc_width = 0,
                  pc_height = 0, pc_point_step = 0, pc_row_step = 0, pc_data = [],
                  pc_seq = 0\<rparr>,
      pub = \<lparr>pub_valid = False, pub_HasConnections = False\<rparr>,
      pointPub = \<lparr>pub_valid = False, pub_HasConnections = False\<rparr>,
      sensorName = [],
      sensorTopic = [],
      OpticalFrameId = [],
      HasInfoConnections = False,
      sequences = (\<lambda>k. 0),
      log = []\<rparr>"

text \<open>
  An environment for the examples: every directory exists, fresh memory holds the float 0
  and bytes without a value, and the helpers leave their first argument as it is.
\<close>

definition example_env :: env where
  "example_env =
     \<lparr>isDirectory = (\<lambda>p. True),
      createDirectories = (\<lambda>p. True),
      fresh_floats = mem_of_list (Finite 0) [],
      fresh_bytes = mem_of_list None [],
      XYZFromPointCloud = (\<lambda>xyz cloud w h. xyz),
      FillMsg = (\<lambda>m xyz img. m),
      InitPointCloudPacked = (\<lambda>m f. m\<lparr>pc_frame_id := f, pc_point_step := 32\<rparr>),
      rendererProjection = (\<lambda>c. Matrix4d 1 0 0 0 0 1 0 0 0 0 1 0 0 0 0 1),
      projectionToCameraIntrinsic = (\<lambda>m w h i j. elem m i j)\<rparr>"

text \<open>
  A configuration for the examples: a depth camera of 2 by 2 pixels with a field of view
  of one radian, and a world in which every step of \<^verbatim>\<open>Load\<close> succeeds.
\<close>

definition example_camera_sdf :: sdf_Camera where
  "example_camera_sdf =
     \<lparr>ImageWidth = 2, ImageHeight = 2, NearClip = 1 / 10, FarClip = 100,
      VisibilityMask = 0xFFFFFFFF, ImageNoise = NONE, AntiAliasingValue = 4,
      HorizontalFov = 1, HasLensIntrinsics = True,
      LensIntrinsicsFx = 2, LensIntrinsicsFy = 2, LensIntrinsicsCx = 1, LensIntrinsicsCy = 1,
      LensIntrinsicsSkew = 0, SaveFrames = False, SaveFramesPath = []\<rparr>"

definition example_sdf :: sdf_Sensor where
  "example_sdf =
     \<lparr>Type = DEPTH_CAMERA, TypeStr = ''depth_camera'', Name = ''depth'', Topic = [],
      CameraSensor = Some example_camera_sdf\<rparr>"

definition example_load_env :: load_env where
  "example_load_env =
     \<lparr>Sensor_Load = True, Advertise_Image = True, AdvertiseInfo = True,
      Advertise_PointCloudPacked = True, has_Scene = True\<rparr>"

text \<open>The sensor that \<^verbatim>\<open>Load\<close> makes of a new sensor with this configuration.\<close>

definition example_sensor :: sensor where
  "example_sensor = snd (Load example_env example_load_env example_sdf DepthCameraSensor_new)"



definition example_captures :: "capture list" where
  "example_captures =
     [NewDepthFrame (mem_of_list NaN [Finite 1, PosInf, Finite 4, Finite 2]) 2 2 1 ''FLOAT32'',
      NewRgbPointCloud (mem_of_list (Finite 0) []) 2 2 4 ''FLOAT32'']"


section \<open>Properties of the projection matrices\<close>

lemma BuildNDCMatrix_entries:
  assumes "v_right \<noteq> v_left" and "v_top \<noteq> v_bottom" and "v_far \<noteq> v_near"
  shows "BuildNDCMatrix v_left v_right v_bottom v_top v_near v_far =
    Matrix4d
      (2 / (v_right - v_left)) 0 0 (- (v_right + v_left) / (v_right - v_left))
      0 (2 / (v_top - v_bottom)) 0 (- (v_top + v_bottom) / (v_top - v_bottom))
      0 0 (- 2 / (v_far - v_near)) (- (v_far + v_near) / (v_far - v_near))
      0 0 0 1"
  by (simp add: BuildNDCMatrix_def Let_def)

lemma BuildPerspectiveMatrix_rows:
  "elem (BuildPerspectiveMatrix fx fy cx cy s v_near v_far) 2 0 = 0"
  "elem (BuildPerspectiveMatrix fx fy cx cy s v_near v_far) 2 1 = 0"
  "elem (BuildPerspectiveMatrix fx fy cx cy s v_near v_far) 2 2 = v_near + v_far"
  "elem (BuildPerspectiveMatrix fx fy cx cy s v_near v_far) 2 3 = v_near * v_far"
  "elem (BuildPerspectiveMatrix fx fy cx cy s v_near v_far) 3 0 = 0"
  "elem (BuildPerspectiveMatrix fx fy cx cy s v_near v_far) 3 1 = 0"
  "elem (BuildPerspectiveMatrix fx fy cx cy s v_near v_far) 3 2 = - 1"
  "elem (BuildPerspectiveMatrix fx fy cx cy s v_near v_far) 3 3 = 0"
  by (simp_all add: BuildPerspectiveMatrix_def)

lemma BuildProjectionMatrix_closed_form:
  assumes "width \<noteq> 0" and "height \<noteq> 0" and "v_far \<noteq> v_near"
  shows "BuildProjectionMatrix width height fx fy cx cy s v_near v_far =
    Matrix4d
      (2 * fx / width) (2 * s / width) (1 - 2 * cx / width) 0
      0 (2 * fy / height) (1 - 2 * (height - cy) / height) 0
      0 0 (- (v_near + v_far) / (v_far - v_near)) (- 2 * (v_near * v_far) / (v_far - v_near))
      0 0 (- 1) 0"
proof -
  have d: "v_far - v_near \<noteq> 0" using assms by simp
  have e22: "- 2 / (v_far - v_near) * (v_near + v_far) + - (v_far + v_near) / (v_far - v_near) * (- 1)
      = - (v_near + v_far) / (v_far - v_near)"
    using d by (simp add: divide_simps) 
  have e12: "2 / height * - (height - cy) + - 1 * (- 1) = 1 - 2 * (height - cy) / height"
    using assms by (simp add: field_simps)
  have e02: "2 / width * - cx + - 1 * (- 1) = 1 - 2 * cx / width"
    using assms by (simp add: field_simps)
  have ndc: "BuildNDCMatrix 0 width 0 height v_near v_far =
    Matrix4d (2 / width) 0 0 (- 1) 0 (2 / height) 0 (- 1)
      0 0 (- 2 / (v_far - v_near)) (- (v_far + v_near) / (v_far - v_near)) 0 0 0 1"
    using assms by (simp add: BuildNDCMatrix_entries)
  have "BuildProjectionMatrix width height fx fy cx cy s v_near v_far =
    Matrix4d 
      (2 / width * fx) (2 / width * s) (2 / width * - cx + - 1 * (- 1)) 0
      0 (2 / height * fy) (2 / height * - (height - cy) + - 1 * (- 1)) 0
      0 0 (- 2 / (v_far - v_near) * (v_near + v_far) + - (v_far + v_near) / (v_far - v_near) * (- 1))
          (- 2 / (v_far - v_near) * (v_near * v_far))
      0 0 (- 1) 0"
    unfolding BuildProjectionMatrix_def ndc BuildPerspectiveMatrix_def Matrix4d_times_def row_by_col_def
    by simp
  also have "\<dots> = Matrix4d
      (2 * fx / width) (2 * s / width) (1 - 2 * cx / width) 0
      0 (2 * fy / height) (1 - 2 * (height - cy) / height) 0
      0 0 (- (v_near + v_far) / (v_far - v_near)) (- 2 * (v_near * v_far) / (v_far - v_near))
      0 0 (- 1) 0"
    unfolding e22 e12 e02 by simp
  finally show ?thesis .
qed


text \<open>
  Claim C1. For clip planes that are pairwise distinct (\<open>right \<noteq> left\<close>, \<open>top \<noteq> bottom\<close>,
  \<open>far \<noteq> near\<close>, and so a width and a height other than 0), \<open>BuildProjectionMatrix\<close> is
  the product of the NDC matrix for the window \<open>0..width\<close>, \<open>0..height\<close> with the perspective
  matrix whose principal point has the flipped ordinate \<open>height - cy\<close>. The NDC matrix has
  the scale entries \<open>2/(right-left)\<close>, \<open>2/(top-bottom)\<close>, \<open>-2/(far-near)\<close> on its diagonal and the
  translation entries \<open>-(right+left)/(right-left)\<close>, \<open>-(top+bottom)/(top-bottom)\<close>,
  \<open>-(far+near)/(far-near)\<close> in its last column; the third row of the perspective matrix
  holds \<open>near+far\<close> and \<open>near*far\<close> and its fourth row is \<open>[0,0,-1,0]\<close>. The last conjunct
  gives the sixteen entries of the product.
\<close>

theorem BuildProjectionMatrix_ndc_times_perspective:
  assumes "width \<noteq> 0" and "height \<noteq> 0" and "v_far \<noteq> v_near"
    and "v_right \<noteq> v_left" and "v_top \<noteq> v_bottom"
  shows "BuildProjectionMatrix width height fx fy cx cy s v_near v_far =
      Matrix4d_times (BuildNDCMatrix 0 width 0 height v_near v_far)
        (BuildPerspectiveMatrix fx fy cx (height - cy) s v_near v_far)
    \<and> BuildNDCMatrix v_left v_right v_bottom v_top v_near v_far =
      Matrix4d
        (2 / (v_right - v_left)) 0 0 (- (v_right + v_left) / (v_right - v_left))
        0 (2 / (v_top - v_bottom)) 0 (- (v_top + v_bottom) / (v_top - v_bottom))
        0 0 (- 2 / (v_far - v_near)) (- (v_far + v_near) / (v_far - v_near))
        0 0 0 1
    \<and> BuildPerspectiveMatrix fx fy cx (height - cy) s v_near v_far =
      Matrix4d
        fx s (- cx) 0
        0 fy (- (height - cy)) 0
        0 0 (v_near + v_far) (v_near * v_far)
        0 0 (- 1) 0
    \<and> BuildProjectionMatrix width height fx fy cx cy s v_near v_far =
      Matrix4d
        (2 * fx / width) (2 * s / width) (1 - 2 * cx / width) 0
        0 (2 * fy / height) (1 - 2 * (height - cy) / height) 0
        0 0 (- (v_near + v_far) / (v_far - v_near)) (- 2 * (v_near * v_far) / (v_far - v_near))
        0 0 (- 1) 0"
proof (intro conjI)
  show "BuildProjectionMatrix width height fx fy cx cy s v_near v_far =
      Matrix4d_times (BuildNDCMatrix 0 width 0 height v_near v_far)
        (BuildPerspectiveMatrix fx fy cx (height - cy) s v_near v_far)"
    by (simp only: BuildProjectionMatrix_def)
next
  show "BuildNDCMatrix v_left v_right v_bottom v_top v_near v_far =
      Matrix4d
        (2 / (v_right - v_left)) 0 0 (- (v_right + v_left) / (v_right - v_left))
        0 (2 / (v_top - v_bottom)) 0 (- (v_top + v_bottom) / (v_top - v_bottom))
        0 0 (- 2 / (v_far - v_near)) (- (v_far + v_near) / (v_far - v_near))
        0 0 0 1"
    using assms by (rule_tac BuildNDCMatrix_entries)
next
  show "BuildPerspectiveMatrix fx fy cx (height - cy) s v_near v_far =
      Matrix4d fx s (- cx) 0 0 fy (- (height - cy)) 0
        0 0 (v_near + v_far) (v_near * v_far) 0 0 (- 1) 0"
    by (simp only: BuildPerspectiveMatrix_def)
next
  show "BuildProjectionMatrix width height fx fy cx cy s v_near v_far =
      Matrix4d
        (2 * fx / width) (2 * s / width) (1 - 2 * cx / width) 0
        0 (2 * fy / height) (1 - 2 * (height - cy) / height) 0
        0 0 (- (v_near + v_far) / (v_far - v_near)) (- 2 * (v_near * v_far) / (v_far - v_near))
        0 0 (- 1) 0"
    using assms(1-3) by (rule BuildProjectionMatrix_closed_form)
qed

text \<open>
  The configuration of the end-to-end example: a 4 by 3 image, focal lengths 2, principal
  point (2, 3/2), no skew, clip planes at 1/10 and 100.
\<close>

theorem BuildProjectionMatrix_ndc_times_perspective_witness:
  "(4::real) \<noteq> 0 \<and> (3::real) \<noteq> 0 \<and> (100::real) \<noteq> 1 / 10
   \<and> BuildNDCMatrix 0 4 0 3 (1 / 10) 100 =
       Matrix4d (1 / 2) 0 0 (- 1) 0 (2 / 3) 0 (- 1) 0 0 (- (20 / 999)) (- (1001 / 999)) 0 0 0 1
   \<and> BuildProjectionMatrix 4 3 2 2 2 (3 / 2) 0 (1 / 10) 100 =
       Matrix4d 1 0 0 0 0 (4 / 3) 0 0 0 0 (- (1001 / 999)) (- (200 / 999)) 0 0 (- 1) 0"
  using BuildProjectionMatrix_ndc_times_perspective
    [of 4 3 100 "1 / 10" 4 0 3 0 2 2 2 "3 / 2" 0]
  by (simp add: Matrix4d_times_def row_by_col_def)

section \<open>Properties of the depth conversion\<close>

















text \<open>
  Claim C8. The claim asks that a frame in which every sample is \<open>+inf\<close> gives defined
  bytes. On the frame \<open>[+inf, +inf]\<close> the code leaves \<^verbatim>\<open>maxDepth\<close> at 0, divides by it
  without a guard (the factor is \<open>+inf\<close>), computes \<open>255 - inf * inf = -inf\<close> and converts
  that to \<^verbatim>\<open>unsigned char\<close>, which is undefined: none of the six bytes written has a
  defined value.
\<close>

theorem ConvertDepthToImage_all_infinite_undefined:
  "scan_max_depth (mem_of_list NaN [PosInf, PosInf]) 2 = Finite 0
   \<and> float_div (Finite 255) (Finite 0) = PosInf
   \<and> float_minus (Finite 255) (float_times PosInf PosInf) = NegInf
   \<and> fst (ConvertDepthToImage (mem_of_list NaN [PosInf, PosInf]) (mem_of_list (Some 7) []) 2 1) 0 = None
   \<and> fst (ConvertDepthToImage (mem_of_list NaN [PosInf, PosInf]) (mem_of_list (Some 7) []) 2 1) 1 = None
   \<and> fst (ConvertDepthToImage (mem_of_list NaN [PosInf, PosInf]) (mem_of_list (Some 7) []) 2 1) 2 = None
   \<and> fst (ConvertDepthToImage (mem_of_list NaN [PosInf, PosInf]) (mem_of_list (Some 7) []) 2 1) 3 = None
   \<and> fst (ConvertDepthToImage (mem_of_list NaN [PosInf, PosInf]) (mem_of_list (Some 7) []) 2 1) 4 = None
   \<and> fst (ConvertDepthToImage (mem_of_list NaN [PosInf, PosInf]) (mem_of_list (Some 7) []) 2 1) 5 = None"
  by (simp add: mem_of_list_def scan_max_depth_def max_depth_step_def upt_rec
        ConvertDepthToImage_def fill_image_def write_pixel_def Let_def truncate_toward_zero_def)

section \<open>Properties of the capture of frames\<close>

















section \<open>Properties of the tick\<close>

lemma published_Nil:
  "published_images [] = []" "published_point_clouds [] = []" "render_passes [] = 0"
  by (simp_all add: published_images_def published_point_clouds_def render_passes_def)

lemma published_Cons:
  "published_images (ev # evs) =
     (case ev of PublishImage m \<Rightarrow> [m] | _ \<Rightarrow> []) @ published_images evs"
  "published_point_clouds (ev # evs) =
     (case ev of PublishPointCloud m \<Rightarrow> [m] | _ \<Rightarrow> []) @ published_point_clouds evs"
  "render_passes (ev # evs) = (if ev = RenderPass then 1 else 0) + render_passes evs"
  by (simp_all add: published_images_def published_point_clouds_def render_passes_def)

lemma published_append:
  "published_images (xs @ ys) = published_images xs @ published_images ys"
  "published_point_clouds (xs @ ys) = published_point_clouds xs @ published_point_clouds ys"
  "render_passes (xs @ ys) = render_passes xs + render_passes ys"
  by (simp_all add: published_images_def published_point_clouds_def render_passes_def)

lemmas published_simps = published_Nil published_Cons published_append

lemma trigger_quiet:
  "published_images (fst (trigger cbs msg i)) = []"
  "published_point_clouds (fst (trigger cbs msg i)) = []"
  "render_passes (fst (trigger cbs msg i)) = 0"
  by (induction cbs arbitrary: i) (simp_all add: published_simps split: callback_result.split)








lemma point_steps_keep:
  "depthBuffer (stamp_point_msg now s) = depthBuffer s"
  "log (stamp_point_msg now s) = log s"
  "depthBuffer (ensure_xyzBuffer e w h s) = depthBuffer s"
  "published_images (log (ensure_xyzBuffer e w h s)) = published_images (log s)"
  "published_point_clouds (log (ensure_xyzBuffer e w h s)) = published_point_clouds (log s)"
  "render_passes (log (ensure_xyzBuffer e w h s)) = render_passes (log s)"
  "depthBuffer (ensure_image e w h s) = depthBuffer s"
  "published_images (log (ensure_image e w h s)) = published_images (log s)"
  "published_point_clouds (log (ensure_image e w h s)) = published_point_clouds (log s)"
  "render_passes (log (ensure_image e w h s)) = render_passes (log s)"
  "depthBuffer (extract_xyz e c w h s) = depthBuffer s"
  "log (extract_xyz e c w h s) = log s"
  "log (depth_to_image d w h s) = log s"
  "log (fill_point_msg e s) = log s"
  "log (publish_points s) = log s @ [PublishPointCloud (pointMsg s)]"
  by (simp_all add: stamp_point_msg_def ensure_xyzBuffer_def ensure_image_def extract_xyz_def
        depth_to_image_def fill_point_msg_def publish_points_def AddSequence_def Let_def
        add_log_def published_simps split: option.split)

lemma publish_point_cloud_outcome:
  "fst (publish_point_cloud e now cam t) =
     (if HasPointConnections t \<and> pointCloudBuffer t \<noteq> None \<and> depthBuffer t = None
         \<and> unat (cam_ImageHeight cam * cam_ImageWidth cam) \<noteq> 0
      then NullRead else Returned True)"
  by (cases "pointCloudBuffer t"; cases "depthBuffer t")
     (simp_all add: publish_point_cloud_def Let_def point_steps_keep)



lemma trigger_callbacks_keeps:
  "depthBuffer (trigger_callbacks msg s) = depthBuffer s"
  "pointCloudBuffer (trigger_callbacks msg s) = pointCloudBuffer s"
  "pointPub (trigger_callbacks msg s) = pointPub s"
  "published_images (log (trigger_callbacks msg s)) = published_images (log s)"
  "published_point_clouds (log (trigger_callbacks msg s)) = published_point_clouds (log s)"
  "render_passes (log (trigger_callbacks msg s)) = render_passes (log s)"
  by (simp_all add: trigger_callbacks_def published_simps trigger_quiet
        split: callback_result.split)


lemma depth_image_msg_keeps:
  "depthBuffer (snd (depth_image_msg now cam s)) = depthBuffer s"
  "pointCloudBuffer (snd (depth_image_msg now cam s)) = pointCloudBuffer s"
  "pointPub (snd (depth_image_msg now cam s)) = pointPub s"
  "imageEvent (snd (depth_image_msg now cam s)) = imageEvent s"
  "log (snd (depth_image_msg now cam s)) = log s"
  by (simp_all add: depth_image_msg_def AddSequence_def Let_def)

lemma info_step_keeps:
  "HasDepthConnections (if HasInfoConnections s then add_log (PublishInfo now) s else s)
     = HasDepthConnections s"
  "HasPointConnections (if HasInfoConnections s then add_log (PublishInfo now) s else s)
     = HasPointConnections s"
  by (simp_all add: HasDepthConnections_def HasPointConnections_def add_log_def)





text \<open>
  Claim C4, as amended. On an initialized sensor with a camera, a tick with no subscriber
  of the depth output and none of the point cloud returns false, makes no render pass,
  publishes no depth image and no point cloud, and leaves the depth, point-cloud and xyz
  buffers and the image as they were. All it does is publish the camera info when that
  has a subscriber: the state after the tick is the state before it but for the log,
  which grows by that one publication or not at all.
\<close>

theorem Update_without_subscribers:
  assumes "initialized s" and "depthCamera s = Some cam"
    and "\<not> HasDepthConnections s" and "\<not> HasPointConnections s"
  shows "fst (Update e captures now s) = Returned False
    \<and> log (snd (Update e captures now s)) =
        log s @ (if HasInfoConnections s then [PublishInfo now] else [])
    \<and> render_passes (log (snd (Update e captures now s))) = render_passes (log s)
    \<and> published_images (log (snd (Update e captures now s))) = published_images (log s)
    \<and> published_point_clouds (log (snd (Update e captures now s))) =
        published_point_clouds (log s)
    \<and> depthBuffer (snd (Update e captures now s)) = depthBuffer s
    \<and> pointCloudBuffer (snd (Update e captures now s)) = pointCloudBuffer s
    \<and> xyzBuffer (snd (Update e captures now s)) = xyzBuffer s
    \<and> image (snd (Update e captures now s)) = image s
    \<and> snd (Update e captures now s) = s\<lparr>log := log (snd (Update e captures now s))\<rparr>"
proof -
  have u: "Update e captures now s =
      (Returned False, if HasInfoConnections s then add_log (PublishInfo now) s else s)"
    using assms
    by (simp add: Update_def Let_def info_step_keeps del: if_split cong: if_cong)
  show ?thesis
    unfolding u by (simp add: add_log_def published_simps)
qed

text \<open>The sensor of the examples has no subscriber at all: its tick leaves the log alone.\<close>

theorem Update_without_subscribers_witness:
  "initialized example_sensor
   \<and> map_option cam_ImageWidth (depthCamera example_sensor) = Some 2
   \<and> \<not> HasDepthConnections example_sensor \<and> \<not> HasPointConnections example_sensor
   \<and> fst (Update example_env [] 7 example_sensor) = Returned False
   \<and> log (snd (Update example_env [] 7 example_sensor)) = log example_sensor"
proof -
  have l: "example_sensor = snd (Load example_env example_load_env example_sdf DepthCameraSensor_new)"
    by (simp only: example_sensor_def)
  obtain cam where c: "depthCamera example_sensor = Some cam" "cam_ImageWidth cam = 2"
      and i: "initialized example_sensor"
      and d: "\<not> HasDepthConnections example_sensor" and p: "\<not> HasPointConnections example_sensor"
      and n: "\<not> HasInfoConnections example_sensor"
    using pi_ge_two
    by (simp add: l Load_def CreateCamera_def Let_def example_env_def example_load_env_def
        example_sdf_def example_camera_sdf_def DepthCameraSensor_new_def add_log_def
        HasDepthConnections_def HasPointConnections_def)
  show ?thesis
    using Update_without_subscribers[OF i c(1) d p, of example_env "[]" 7] i c d p n
    by simp
qed

text \<open>
  Claim C4 as stated fails in that the tick may publish: with a subscriber of the camera
  info, and none of the depth output or the point cloud, the tick publishes the camera
  info before it returns.
\<close>

theorem Update_info_published_counterexample:
  "\<not> HasDepthConnections (example_sensor\<lparr>HasInfoConnections := True\<rparr>)
   \<and> \<not> HasPointConnections (example_sensor\<lparr>HasInfoConnections := True\<rparr>)
   \<and> initialized (example_sensor\<lparr>HasInfoConnections := True\<rparr>)
   \<and> log (snd (Update example_env [] 7 (example_sensor\<lparr>HasInfoConnections := True\<rparr>))) =
       log example_sensor @ [PublishInfo 7]"
  using pi_ge_two
  by (simp add: example_sensor_def Load_def CreateCamera_def Let_def example_env_def
        example_load_env_def example_sdf_def example_camera_sdf_def DepthCameraSensor_new_def
        add_log_def HasDepthConnections_def HasPointConnections_def Update_def)







section \<open>Properties of the creation of the camera and of loading\<close>

text \<open>
  Claim C6, as amended. For a sensor whose configuration has a camera, \<^verbatim>\<open>CreateCamera\<close>
  succeeds exactly when the horizontal field of view lies in the closed interval from
  0.01 to \<open>2\<pi>\<close>, and fails exactly when it is below 0.01 or above \<open>2\<pi>\<close>.
\<close>

theorem CreateCamera_fov_check:
  assumes "CameraSensor (sdfSensor s) = Some cameraSdf"
  shows "fst (CreateCamera e s) =
     (0.01 \<le> HorizontalFov cameraSdf \<and> HorizontalFov cameraSdf \<le> pi * 2)"
  using assms by (simp add: CreateCamera_def Let_def not_less)

text \<open>The configuration of the examples has a field of view of 1 radian and is accepted.\<close>

theorem CreateCamera_fov_check_witness:
  "CameraSensor (sdfSensor (DepthCameraSensor_new\<lparr>sdfSensor := example_sdf\<rparr>))
     = Some example_camera_sdf
   \<and> HorizontalFov example_camera_sdf = 1
   \<and> fst (CreateCamera example_env (DepthCameraSensor_new\<lparr>sdfSensor := example_sdf\<rparr>)) = True"
proof -
  have c: "CameraSensor (sdfSensor (DepthCameraSensor_new\<lparr>sdfSensor := example_sdf\<rparr>))
     = Some example_camera_sdf"
    by (simp add: example_sdf_def)
  have h: "HorizontalFov example_camera_sdf = 1"
    by (simp add: example_camera_sdf_def)
  show ?thesis
    using CreateCamera_fov_check[OF c, of example_env] c h pi_ge_two by simp
qed

text \<open>
  Claim C6 as stated fails at the lower end: a field of view of exactly 0.01 is not
  greater than 0.01, and the camera is created all the same, since the code rejects only
  values below 0.01.
\<close>

theorem CreateCamera_fov_boundary_counterexample:
  "HorizontalFov (example_camera_sdf\<lparr>HorizontalFov := 0.01\<rparr>) = 0.01
   \<and> \<not> (0.01 < HorizontalFov (example_camera_sdf\<lparr>HorizontalFov := 0.01\<rparr>))
   \<and> fst (CreateCamera example_env
        (DepthCameraSensor_new\<lparr>sdfSensor :=
           example_sdf\<lparr>CameraSensor := Some (example_camera_sdf\<lparr>HorizontalFov := 0.01\<rparr>)\<rparr>\<rparr>))
       = True"
  using pi_ge_two by (simp add: CreateCamera_def Let_def)

text \<open>
  Claim C7. The claim asks that a configuration whose type is not the depth camera makes
  \<^verbatim>\<open>Load\<close> fail and leaves the sensor unusable. For a configuration of the type
  \<^verbatim>\<open>CAMERA\<close> that has a camera, the code logs the error and goes on: \<^verbatim>\<open>Load\<close> returns
  true, the sensor is initialized, and a later tick with a subscriber of the point cloud
  returns true.
\<close>

theorem Load_wrong_type_succeeds:
  "Type (example_sdf\<lparr>Type := CAMERA, TypeStr := ''camera''\<rparr>) \<noteq> DEPTH_CAMERA
   \<and> fst (Load example_env example_load_env
        (example_sdf\<lparr>Type := CAMERA, TypeStr := ''camera''\<rparr>) DepthCameraSensor_new) = True
   \<and> initialized (snd (Load example_env example_load_env
        (example_sdf\<lparr>Type := CAMERA, TypeStr := ''camera''\<rparr>) DepthCameraSensor_new)) = True
   \<and> hd (log (snd (Load example_env example_load_env
        (example_sdf\<lparr>Type := CAMERA, TypeStr := ''camera''\<rparr>) DepthCameraSensor_new))) =
       LogError ''Attempting to a load a Depth Camera sensor, but received a camera''
   \<and> fst (Update example_env example_captures 7
        ((snd (Load example_env example_load_env
           (example_sdf\<lparr>Type := CAMERA, TypeStr := ''camera''\<rparr>) DepthCameraSensor_new))
         \<lparr>pointPub := \<lparr>pub_valid = True, pub_HasConnections = True\<rparr>\<rparr>)) = Returned True"
  using pi_ge_two
  by (simp add: Load_def CreateCamera_def Let_def example_env_def example_load_env_def
        example_sdf_def example_camera_sdf_def DepthCameraSensor_new_def add_log_def
        Update_def HasDepthConnections_def HasPointConnections_def split_def
        publish_point_cloud_outcome Render_def example_captures_def depth_image_msg_keeps
        trigger_callbacks_keeps OnNewDepthFrame_def OnNewRgbPointCloud_def memcpy_floats_def)

end
